theory Spec2Isabelle
  imports Complex_Main "HOL-Library.Word" "HOL-Library.Countable"
begin

unbundle bit_operations_syntax

chapter \<open>Global symmetries, model parameters and the SYK2 model\<close>

section \<open>Machine types and failures\<close>

type_synonym u64 = "64 word"
type_synonym uint = "32 word"
type_synonym size_t = "64 word"

text \<open>
  The failures the modelled code can raise: calling an empty \<^verbatim>\<open>std::function\<close>
  throws \<^verbatim>\<open>std::bad_function_call\<close>; \<^verbatim>\<open>std::vector::resize\<close> beyond
  \<^verbatim>\<open>max_size()\<close> throws \<^verbatim>\<open>std::length_error\<close>, and \<^verbatim>\<open>std::bad_alloc\<close> when the
  allocator cannot provide the storage; \<^verbatim>\<open>operator[]\<close> past the end of a
  vector is an out-of-bounds access; adding two matrices of different shape is a
  \<^verbatim>\<open>std::logic_error\<close> of the matrix library.
\<close>

datatype error = BadFunctionCall | LengthError | BadAlloc | OutOfBounds | LogicError

section \<open>global\_symmetries.h\<close>

datatype GlobalSymGenerators = U1 | OTHER

text \<open>
  \<^verbatim>\<open>typedef std::function<bool(u64, double)> repType\<close>: a function object that may be
  empty. The target value \<^verbatim>\<open>double val_\<close> is a real number here; the lattice handle is
  an arbitrary value of type \<open>'lat\<close>.
\<close>

type_synonym repType = "(u64 \<Rightarrow> real \<Rightarrow> bool) option"

text \<open>
  A member \<^verbatim>\<open>x_\<close> of the source is the field \<open>x'\<close> of the record: an identifier cannot
  end in an underscore here.
\<close>

record 'lat GlobalSym =
  name' :: GlobalSymGenerators
  check' :: repType
  val' :: real
  lat' :: 'lat

text \<open>The constructor: \<^verbatim>\<open>val_(0), lat_(_lat), name_(_name)\<close>; \<^verbatim>\<open>check_\<close> is
  default-constructed, that is, empty.\<close>

definition GlobalSym_ctor :: "'lat \<Rightarrow> GlobalSymGenerators \<Rightarrow> 'lat GlobalSym" where
  "GlobalSym_ctor lat nm = \<lparr>name' = nm, check' = None, val' = 0, lat' = lat\<rparr>"

definition setFun :: "(u64 \<Rightarrow> real \<Rightarrow> bool) \<Rightarrow> 'lat GlobalSym \<Rightarrow> 'lat GlobalSym" where
  "setFun fn g = g\<lparr>check' := Some fn\<rparr>"

definition setName :: "GlobalSymGenerators \<Rightarrow> 'lat GlobalSym \<Rightarrow> 'lat GlobalSym" where
  "setName nm g = g\<lparr>name' := nm\<rparr>"

definition getName :: "'lat GlobalSym \<Rightarrow> GlobalSymGenerators" where
  "getName g = name' g"

definition getVal :: "'lat GlobalSym \<Rightarrow> real" where
  "getVal g = val' g"

text \<open>\<^verbatim>\<open>operator()(u64 state)\<close>: \<^verbatim>\<open>return this->check_(state, val_)\<close>.\<close>

definition call_op :: "'lat GlobalSym \<Rightarrow> u64 \<Rightarrow> error + bool" where
  "call_op g state =
     (case check' g of
        None \<Rightarrow> Inl BadFunctionCall
      | Some f \<Rightarrow> Inr (f state (val' g)))"

text \<open>\<^verbatim>\<open>check(u64 state, bool outCond)\<close>: \<^verbatim>\<open>return this->check_(state, val_) && outCond\<close>;
  the stored function is called first, whatever \<^verbatim>\<open>outCond\<close> is.\<close>

definition check :: "'lat GlobalSym \<Rightarrow> u64 \<Rightarrow> bool \<Rightarrow> error + bool" where
  "check g state outCond =
     (case check' g of
        None \<Rightarrow> Inl BadFunctionCall
      | Some f \<Rightarrow> Inr (f state (val' g) \<and> outCond))"

text \<open>\<^verbatim>\<open>std::popcount\<close> on a 64-bit value: the number of set bits.\<close>

definition popcount :: "u64 \<Rightarrow> nat" where
  "popcount w = length (filter (bit w) [0..<64])"

text \<open>\<^verbatim>\<open>U1Sym(u64 _state, double _val)\<close>: \<^verbatim>\<open>return std::popcount(_state) == _val\<close>; the
  integer count is converted to the floating type of \<^verbatim>\<open>_val\<close> and compared.\<close>

definition U1Sym :: "u64 \<Rightarrow> real \<Rightarrow> bool" where
  "U1Sym state val \<longleftrightarrow> real (popcount state) = val"

section \<open>user\_interface\_modp.hpp\<close>

text \<open>
  The macros \<^verbatim>\<open>UI_PARAM_CREATE_DEFAULT\<close>, \<^verbatim>\<open>UI_PARAM_CREATE_DEFAULTD\<close>,
  \<^verbatim>\<open>UI_PARAM_CREATE_DEFAULTV\<close>, \<^verbatim>\<open>UI_PARAM_STEP\<close> and \<^verbatim>\<open>UI_PARAM_SET_DEFAULT*\<close> come
  from \<^verbatim>\<open>user_interface_include.hpp\<close>, which is not among the sources. They are read from
  their arguments and from the members the code uses: \<^verbatim>\<open>(name, type, value)\<close> declares the
  member \<^verbatim>\<open>name_\<close> of that type with that initial value; the \<^verbatim>\<open>V\<close> form declares the vector
  \<^verbatim>\<open>name_\<close> (initially empty) and the scalar \<^verbatim>\<open>name_r_\<close>; \<^verbatim>\<open>UI_PARAM_STEP\<close> declares
  \<^verbatim>\<open>name_\<close> with the given value; \<^verbatim>\<open>UI_PARAM_SET_DEFAULT*\<close> puts the declared value back.
  \<^verbatim>\<open>double\<close> is a real number.
\<close>

text \<open>The model types that the sources name; \<open>MODEL_tag\<close> stands for the other members
  of the enumeration.\<close>

datatype MY_MODELS = ISING_M | FREE_FERMIONS_M | SYK2_M | MODEL_tag nat

subsection \<open>std::vector\<close>

text \<open>
  \<^verbatim>\<open>max_size()\<close> of a vector whose elements take \<open>sz\<close> bytes, on a 64-bit platform:
  \<^verbatim>\<open>PTRDIFF_MAX / sizeof(T)\<close>.
\<close>

definition vector_max_size :: "nat \<Rightarrow> nat" where
  "vector_max_size sz = (2 ^ 63 - 1) div sz"

text \<open>\<^verbatim>\<open>v.size()\<close>, a \<^verbatim>\<open>size_t\<close>.\<close>

definition size_v :: "'a list \<Rightarrow> size_t" where
  "size_v v = word_of_nat (length v)"

text \<open>
  \<^verbatim>\<open>v.resize(n)\<close> for a vector of \<^verbatim>\<open>double\<close>: throws \<^verbatim>\<open>std::length_error\<close> when \<open>n\<close>
  exceeds \<^verbatim>\<open>max_size()\<close>; otherwise keeps the first \<open>n\<close> elements and appends zeros up
  to length \<open>n\<close>. Growing needs storage: the allocator is the parameter \<open>avail\<close>, the
  largest number of elements it can provide, and a vector that grows beyond it throws
  \<^verbatim>\<open>std::bad_alloc\<close>. The capacity of a vector is taken to be its size.
\<close>

definition resize :: "nat \<Rightarrow> real list \<Rightarrow> size_t \<Rightarrow> error + real list" where
  "resize avail v n =
     (if vector_max_size 8 < unat n then Inl LengthError
      else if length v < unat n \<and> avail < unat n then Inl BadAlloc
      else Inr (take (unat n) v @ replicate (unat n - length v) 0))"

text \<open>\<^verbatim>\<open>v[n]\<close>: reading past the end is an out-of-bounds access.\<close>

definition at_v :: "'a list \<Rightarrow> size_t \<Rightarrow> error + 'a" where
  "at_v v n = (if unat n < length v then Inr (v ! unat n) else Inl OutOfBounds)"

subsection \<open>The nested parameter structures\<close>

record qsm_t =
  qsm_N' :: size_t
  qsm_Ntot' :: size_t
  qsm_gamma' :: real
  qsm_g0' :: real
  qsm_alpha' :: "real list"
  qsm_alpha_r' :: real
  qsm_xi' :: "real list"
  qsm_xi_r' :: real
  qsm_h' :: "real list"
  qsm_h_r' :: real

text \<open>
  \<^verbatim>\<open>resizeQSM\<close>. \<^verbatim>\<open>_N\<close> has the type of its operands, \<^verbatim>\<open>size_t\<close>: the subtraction wraps
  around and \<^verbatim>\<open>_N < 0\<close> is an unsigned comparison. \<open>avail\<close> is the allocator's limit.
\<close>

definition resizeQSM :: "nat \<Rightarrow> qsm_t \<Rightarrow> error + qsm_t" where
  "resizeQSM avail q =
     (let N = qsm_Ntot' q - qsm_N' q in
      if N < 0 then Inr q
      else
        let q1 = q\<lparr>qsm_alpha_r' := 0\<rparr> in
        (case resize avail (qsm_alpha' q1) (qsm_Ntot' q1 - qsm_N' q1) of
           Inl e \<Rightarrow> Inl e
         | Inr a \<Rightarrow>
             (let q2 = q1\<lparr>qsm_alpha' := a, qsm_xi_r' := 0\<rparr> in
              (case resize avail (qsm_xi' q2) (qsm_Ntot' q2 - qsm_N' q2) of
                 Inl e \<Rightarrow> Inl e
               | Inr x \<Rightarrow>
                   (let q3 = q2\<lparr>qsm_xi' := x, qsm_h_r' := 0\<rparr> in
                    (case resize avail (qsm_h' q3) N of
                       Inl e \<Rightarrow> Inl e
                     | Inr h \<Rightarrow> Inr (q3\<lparr>qsm_h' := h\<rparr>)))))))"

record rosenzweig_porter_t =
  rp_g' :: "real list"
  rp_g_r' :: real
  rp_single_particle' :: bool
  rp_be_real' :: bool
  rp_g_sweep_n' :: int

record ultrametric_t =
  um_N' :: size_t
  um_Ntot' :: size_t
  um_alpha' :: "real list"
  um_alpha_r' :: real
  um_g' :: real

text \<open>\<^verbatim>\<open>resizeUM\<close>, with the same unsigned \<^verbatim>\<open>_N\<close>.\<close>

definition resizeUM :: "nat \<Rightarrow> ultrametric_t \<Rightarrow> error + ultrametric_t" where
  "resizeUM avail u =
     (let N = um_Ntot' u - um_N' u in
      if N < 0 then Inr u
      else
        let u1 = u\<lparr>um_alpha_r' := 0\<rparr> in
        case resize avail (um_alpha' u1) N of
          Inl e \<Rightarrow> Inl e
        | Inr a \<Rightarrow> Inr (u1\<lparr>um_alpha' := a\<rparr>))"

record aubry_andre_t =
  aa_J' :: real
  aa_lambda' :: real
  aa_beta' :: real
  aa_phi' :: real

record power_law_random_bandwidth_t =
  plrb_a' :: "real list"
  plrb_a_r' :: real
  plrb_b' :: real
  plrb_mb' :: bool

subsection \<open>ModP\<close>

record ModP =
  modTyp' :: MY_MODELS
  modRanN' :: "uint list"
  modRanN_r' :: uint
  modRanSeed' :: u64
  modRanNIdx' :: uint
  eth_entro' :: bool
  eth_susc' :: bool
  eth_ipr' :: bool
  eth_offd' :: bool
  eth_end' :: "real list"
  eth_end_r' :: real
  modMidStates' :: real
  modEnDiff' :: real
  operators :: "string list"
  J1' :: real
  hz' :: real
  hx' :: real
  J2' :: real
  eta1' :: real
  eta2' :: real
  dlt1' :: real
  dlt2' :: real
  Kx' :: "real list"
  Ky' :: "real list"
  Kz' :: "real list"
  heiJ' :: "real list"
  heiDlt' :: "real list"
  heiHx' :: "real list"
  heiHz' :: "real list"
  qsm :: qsm_t
  rosenzweig_porter :: rosenzweig_porter_t
  ultrametric :: ultrametric_t
  q_gamma' :: uint
  q_manifold' :: bool
  q_manybody' :: bool
  q_randomCombNum' :: uint
  q_realizationNum' :: uint
  q_shuffle' :: bool
  q_broad' :: real
  aubry_andre :: aubry_andre_t
  power_law_random_bandwidth :: power_law_random_bandwidth_t

text \<open>
  \<^verbatim>\<open>getRanReal(uint i)\<close>: \<^verbatim>\<open>i < modRanN_.size() ? modRanN_[i] : modRanN_[modRanN_.size()-1]\<close>.
  The comparison converts \<open>i\<close> to \<^verbatim>\<open>size_t\<close>; \<^verbatim>\<open>size()-1\<close> is \<^verbatim>\<open>size_t\<close> arithmetic.
\<close>

definition getRanReal :: "ModP \<Rightarrow> uint \<Rightarrow> error + uint" where
  "getRanReal m i =
     (if ucast i < size_v (modRanN' m) then at_v (modRanN' m) (ucast i)
      else at_v (modRanN' m) (size_v (modRanN' m) - 1))"

text \<open>\<^verbatim>\<open>v_1d<double>(1, 1.0)\<close> is the vector of one element \<open>1.0\<close>.\<close>

definition setDefault :: "ModP \<Rightarrow> ModP" where
  "setDefault m =
     m\<lparr>modTyp' := ISING_M,
       operators := [''sz/L'', ''sz/1''],
       modRanN' := [1],
       J1' := 1, hz' := 1, hx' := 1,
       J2' := 2, eta1' := 0.5, eta2' := 0.5, dlt1' := 0.3, dlt2' := 0.3,
       Kx' := replicate 1 1, Ky' := replicate 1 1, Kz' := replicate 1 1,
       heiJ' := replicate 1 1, heiDlt' := replicate 1 1,
       heiHz' := replicate 1 1, heiHx' := replicate 1 1,
       qsm := (qsm m)\<lparr>qsm_gamma' := 1, qsm_g0' := 1, qsm_Ntot' := 1, qsm_N' := 1,
                       qsm_alpha' := replicate 1 1, qsm_xi' := replicate 1 1,
                       qsm_h' := replicate 1 1\<rparr>,
       rosenzweig_porter := (rosenzweig_porter m)\<lparr>rp_g' := replicate 1 1\<rparr>,
       aubry_andre := (aubry_andre m)\<lparr>aa_J' := 1, aa_lambda' := 0.5,
                                       aa_beta' := (1 + sqrt 5) / 2, aa_phi' := 1\<rparr>\<rparr>"

text \<open>A freshly constructed record: every member at its declared initial value, every
  vector empty.\<close>

definition qsm_t_init :: qsm_t where
  "qsm_t_init =
     \<lparr>qsm_N' = 1, qsm_Ntot' = 1, qsm_gamma' = 1, qsm_g0' = 1,
      qsm_alpha' = [], qsm_alpha_r' = 0, qsm_xi' = [], qsm_xi_r' = 0,
      qsm_h' = [], qsm_h_r' = 0\<rparr>"

definition ultrametric_t_init :: ultrametric_t where
  "ultrametric_t_init =
     \<lparr>um_N' = 1, um_Ntot' = 1, um_alpha' = [], um_alpha_r' = 0, um_g' = 1\<rparr>"

definition ModP_init :: ModP where
  "ModP_init =
     \<lparr>modTyp' = ISING_M, modRanN' = [], modRanN_r' = 0, modRanSeed' = 0, modRanNIdx' = 0,
      eth_entro' = False, eth_susc' = True, eth_ipr' = True, eth_offd' = False,
      eth_end' = [], eth_end_r' = 0, modMidStates' = 1, modEnDiff' = 1,
      operators = [],
      J1' = 1, hz' = 1, hx' = 1, J2' = 2, eta1' = 0.5, eta2' = 0.5, dlt1' = 0.3, dlt2' = 0.3,
      Kx' = [], Ky' = [], Kz' = [], heiJ' = [], heiDlt' = [], heiHx' = [], heiHz' = [],
      qsm = qsm_t_init,
      rosenzweig_porter =
        \<lparr>rp_g' = [], rp_g_r' = 0, rp_single_particle' = False, rp_be_real' = True,
         rp_g_sweep_n' = 1\<rparr>,
      ultrametric = ultrametric_t_init,
      q_gamma' = 1, q_manifold' = False, q_manybody' = True, q_randomCombNum' = 100,
      q_realizationNum' = 100, q_shuffle' = True, q_broad' = 0.1,
      aubry_andre = \<lparr>aa_J' = 1, aa_lambda' = 0.5, aa_beta' = (1 + sqrt 5) / 2, aa_phi' = 1\<rparr>,
      power_law_random_bandwidth =
        \<lparr>plrb_a' = [], plrb_a_r' = 0, plrb_b' = 1, plrb_mb' = False\<rparr>\<rparr>"

section \<open>SYK2.h\<close>

subsection \<open>Collaborators that are not among the sources\<close>

text \<open>
  Modelled from the spec: the lattice of \<^verbatim>\<open>lattices.h\<close>, which is not among the sources.
  It ``exposes site count, boundary-condition identifier''. The source names the
  identifier \<^verbatim>\<open>PBC\<close>; \<open>OBC\<close> stands for a boundary condition that is not periodic.
  \<^verbatim>\<open>getSTR_BoundaryConditions\<close> gives the name of the identifier, as the
  \<^verbatim>\<open>BEGIN_ENUM\<close>/\<^verbatim>\<open>DECL_ENUM_ELEMENT\<close> pattern of \<^verbatim>\<open>global_symmetries.h\<close> does.
\<close>

datatype BoundaryConditions = PBC | OBC

fun getSTR_BoundaryConditions :: "BoundaryConditions \<Rightarrow> string" where
  "getSTR_BoundaryConditions PBC = ''PBC''"
| "getSTR_BoundaryConditions OBC = ''OBC''"

record Lattice =
  get_Ns :: nat
  get_BC :: BoundaryConditions

text \<open>
  Modelled from the spec: the Hilbert-space descriptor, which is not among the sources:
  the lattice it was built over, if any, the site count and the dimension it exposes.
\<close>

record HilbertSpace =
  getLattice :: "Lattice option"
  getLatticeSize :: nat
  getHilbertSize :: nat

text \<open>
  The dense matrix of the linear-algebra library: the shape and the elements in
  column-major order. Element \<open>(i, j)\<close> is at position \<open>i + j * n_rows\<close>.
\<close>

record 'a Mat =
  n_rows :: nat
  n_cols :: nat
  mem :: "'a list"

definition elem :: "'a Mat \<Rightarrow> nat \<Rightarrow> nat \<Rightarrow> 'a" where
  "elem M i j = mem M ! (i + j * n_rows M)"

definition is_Mat :: "nat \<Rightarrow> nat \<Rightarrow> 'a Mat \<Rightarrow> bool" where
  "is_Mat n m M \<longleftrightarrow> n_rows M = n \<and> n_cols M = m \<and> length (mem M) = n * m"

text \<open>\<^verbatim>\<open>arma::zeros(n, m)\<close>.\<close>

definition zeros :: "nat \<Rightarrow> nat \<Rightarrow> 'a::zero Mat" where
  "zeros n m = \<lparr>n_rows = n, n_cols = m, mem = replicate (n * m) 0\<rparr>"

text \<open>\<^verbatim>\<open>M / s\<close> and \<^verbatim>\<open>c * M\<close> with a scalar work element by element.\<close>

definition mat_div :: "'a::inverse Mat \<Rightarrow> 'a \<Rightarrow> 'a Mat" where
  "mat_div M s = M\<lparr>mem := map (\<lambda>x. x / s) (mem M)\<rparr>"

definition mat_scale :: "'a::times \<Rightarrow> 'a Mat \<Rightarrow> 'a Mat" where
  "mat_scale c M = M\<lparr>mem := map (\<lambda>x. c * x) (mem M)\<rparr>"

text \<open>\<^verbatim>\<open>A + B\<close>: the library refuses operands of different shape.\<close>

definition mat_add :: "'a::plus Mat \<Rightarrow> 'a Mat \<Rightarrow> error + 'a Mat" where
  "mat_add A B =
     (if n_rows A = n_rows B \<and> n_cols A = n_cols B
      then Inr (A\<lparr>mem := map2 (+) (mem A) (mem B)\<rparr>)
      else Inl LogicError)"

text \<open>
  \<^verbatim>\<open>STR(Ns)\<close> renders a number in decimal; \<^verbatim>\<open>SSTR\<close> turns its argument into a
  \<^verbatim>\<open>std::string\<close>.
\<close>

fun STR_num :: "nat \<Rightarrow> string" where
  "STR_num n =
     (if n < 10 then [''0123456789'' ! n]
      else STR_num (n div 10) @ [''0123456789'' ! (n mod 10)])"

declare STR_num.simps [simp del]

definition SSTR :: "string \<Rightarrow> string" where
  "SSTR x = x"

subsection \<open>The model\<close>

text \<open>
  The members of the model that \<^verbatim>\<open>SYK2.h\<close> reads and writes: \<^verbatim>\<open>type_\<close>, \<^verbatim>\<open>lat_\<close> (a
  shared pointer, possibly null), \<^verbatim>\<open>Ns_\<close>, \<^verbatim>\<open>Nh\<close>, the matrix \<^verbatim>\<open>H_\<close>, the random stream
  \<^verbatim>\<open>ran_\<close> and the cached string \<^verbatim>\<open>info_\<close>. The scalar type \<^verbatim>\<open>_T\<close> is \<open>'a\<close>; the state
  of the random stream is a value of type \<open>'rng\<close>.
\<close>

record ('a, 'rng) SYK2 =
  type' :: MY_MODELS
  lat' :: "Lattice option"
  Ns' :: nat
  Nh :: nat
  H' :: "'a Mat"
  ran' :: 'rng
  info' :: string

text \<open>
  Modelled from the spec: \<^verbatim>\<open>QuadraticHamiltonian::info(name, skip, sep)\<close> of \<^verbatim>\<open>hamilQ.h\<close>,
  which is not among the sources. The descriptive string is
  \<^verbatim>\<open><sep><ModelName>,Ns=<n>,BC=<bc>[,<sep><param>=<value>]*\<close>: the name it is given, then
  one entry for every model-specific parameter that is not in \<open>skip\<close>. The parameters
  are passed as pairs of a name and a rendered value.
\<close>

definition QuadraticHamiltonian_info ::
  "(string \<times> string) list \<Rightarrow> string \<Rightarrow> string list \<Rightarrow> string \<Rightarrow> string" where
  "QuadraticHamiltonian_info params name skip sep =
     name @ concat (map (\<lambda>(p, v). '','' @ sep @ p @ ''='' @ v)
                        (filter (\<lambda>(p, v). p \<notin> set skip) params))"

text \<open>
  \<^verbatim>\<open>info(skip, sep, prec)\<close>. The formatting of the base class is the parameter \<open>qinfo\<close>.
\<close>

definition info ::
  "(string \<Rightarrow> string list \<Rightarrow> string \<Rightarrow> string) \<Rightarrow> ('a, 'rng) SYK2 \<Rightarrow>
   string list \<Rightarrow> string \<Rightarrow> int \<Rightarrow> string" where
  "info qinfo m skip sep prec =
     (let Ns = Ns' m;
          BC = (case lat' m of Some l \<Rightarrow> get_BC l | None \<Rightarrow> PBC);
          name = sep @ ''SYK2,Ns='' @ STR_num Ns;
          name = name @ '',BC='' @ SSTR (getSTR_BoundaryConditions BC)
      in qinfo name skip sep)"

text \<open>\<^verbatim>\<open>updateInfo()\<close>: \<^verbatim>\<open>this->info_ = this->info()\<close>, with the default arguments.\<close>

definition updateInfo ::
  "(string \<Rightarrow> string list \<Rightarrow> string \<Rightarrow> string) \<Rightarrow> ('a, 'rng) SYK2 \<Rightarrow> ('a, 'rng) SYK2" where
  "updateInfo qinfo m = m\<lparr>info' := info qinfo m [] ''_'' 2\<rparr>"

text \<open>
  Modelled from the spec: the three constructors of \<^verbatim>\<open>QuadraticHamiltonian\<close> (\<^verbatim>\<open>hamilQ.h\<close>,
  not among the sources), from a lattice, from a site count alone (``lattice-free'': no
  lattice handle) and from a Hilbert-space descriptor. Each sets the site count and the
  dimension; the coupling matrix of a quadratic model is \<open>Ns \<times> Ns\<close>. \<open>b\<close> is the object
  with its members default-initialised; what the base does with the constant and the two
  flags is not described.
\<close>

definition QuadraticHamiltonian_lat ::
  "('a, 'rng) SYK2 \<Rightarrow> Lattice \<Rightarrow> real \<Rightarrow> bool \<Rightarrow> bool \<Rightarrow> ('a, 'rng) SYK2" where
  "QuadraticHamiltonian_lat b lat c particleConserving isSparse =
     b\<lparr>lat' := Some lat, Ns' := get_Ns lat, Nh := get_Ns lat\<rparr>"

definition QuadraticHamiltonian_Ns ::
  "('a, 'rng) SYK2 \<Rightarrow> nat \<Rightarrow> real \<Rightarrow> bool \<Rightarrow> bool \<Rightarrow> ('a, 'rng) SYK2" where
  "QuadraticHamiltonian_Ns b Ns c particleConserving isSparse =
     b\<lparr>lat' := None, Ns' := Ns, Nh := Ns\<rparr>"

definition QuadraticHamiltonian_hil ::
  "('a, 'rng) SYK2 \<Rightarrow> HilbertSpace \<Rightarrow> real \<Rightarrow> bool \<Rightarrow> bool \<Rightarrow> ('a, 'rng) SYK2" where
  "QuadraticHamiltonian_hil b hil c particleConserving isSparse =
     b\<lparr>lat' := getLattice hil, Ns' := getLatticeSize hil, Nh := getLatticeSize hil\<rparr>"

text \<open>
  The constructors of \<^verbatim>\<open>SYK2\<close>. After the base constructor each runs
  \<^verbatim>\<open>this->type_ = MY_MODELS::SYK2_M; this->info_ = this->info();\<close> and logs a line. The
  copying and the moving constructor from a Hilbert space have the same body and receive
  the same descriptor value.
\<close>

definition SYK2_lat ::
  "(string \<Rightarrow> string list \<Rightarrow> string \<Rightarrow> string) \<Rightarrow> ('a, 'rng) SYK2 \<Rightarrow> Lattice \<Rightarrow> real \<Rightarrow>
   ('a, 'rng) SYK2" where
  "SYK2_lat qinfo b lat c =
     (let m = QuadraticHamiltonian_lat b lat c True False;
          m = m\<lparr>type' := SYK2_M\<rparr>
      in m\<lparr>info' := info qinfo m [] ''_'' 2\<rparr>)"

definition SYK2_Ns ::
  "(string \<Rightarrow> string list \<Rightarrow> string \<Rightarrow> string) \<Rightarrow> ('a, 'rng) SYK2 \<Rightarrow> nat \<Rightarrow> real \<Rightarrow>
   ('a, 'rng) SYK2" where
  "SYK2_Ns qinfo b Ns c =
     (let m = QuadraticHamiltonian_Ns b Ns c True False;
          m = m\<lparr>type' := SYK2_M\<rparr>
      in m\<lparr>info' := info qinfo m [] ''_'' 2\<rparr>)"

definition SYK2_hil ::
  "(string \<Rightarrow> string list \<Rightarrow> string \<Rightarrow> string) \<Rightarrow> ('a, 'rng) SYK2 \<Rightarrow> HilbertSpace \<Rightarrow> real \<Rightarrow>
   ('a, 'rng) SYK2" where
  "SYK2_hil qinfo b hil c =
     (let m = QuadraticHamiltonian_hil b hil c True False;
          m = m\<lparr>type' := SYK2_M\<rparr>
      in m\<lparr>info' := info qinfo m [] ''_'' 2\<rparr>)"

definition SYK2_hil_move ::
  "(string \<Rightarrow> string list \<Rightarrow> string \<Rightarrow> string) \<Rightarrow> ('a, 'rng) SYK2 \<Rightarrow> HilbertSpace \<Rightarrow> real \<Rightarrow>
   ('a, 'rng) SYK2" where
  "SYK2_hil_move qinfo b hil c =
     (let m = QuadraticHamiltonian_hil b hil c True False;
          m = m\<lparr>type' := SYK2_M\<rparr>
      in m\<lparr>info' := info qinfo m [] ''_'' 2\<rparr>)"

text \<open>
  \<^verbatim>\<open>hamiltonian()\<close>:
  \<^verbatim>\<open>this->init(); this->H_ = this->ran_.GOE<_T>(Nh, Nh) / std::sqrt(Nh) + algebra::cast<_T>(I) * arma::zeros(Nh, Nh);\<close>
  \<^verbatim>\<open>init\<close> (of the base class), the sampler \<^verbatim>\<open>GOE\<close> (which returns the sample and the advanced
  stream) and the scalar \<^verbatim>\<open>algebra::cast<_T>(I)\<close> are not among the sources: they are the
  parameters \<open>init\<close>, \<open>GOE\<close> and \<open>castI\<close>.
\<close>

definition hamiltonian ::
  "(('a::real_normed_field, 'rng) SYK2 \<Rightarrow> ('a, 'rng) SYK2) \<Rightarrow>
   ('rng \<Rightarrow> nat \<Rightarrow> nat \<Rightarrow> 'a Mat \<times> 'rng) \<Rightarrow> 'a \<Rightarrow>
   ('a, 'rng) SYK2 \<Rightarrow> error + ('a, 'rng) SYK2" where
  "hamiltonian init GOE castI m =
     (let m1 = init m;
          (G, r) = GOE (ran' m1) (Nh m1) (Nh m1);
          m2 = m1\<lparr>ran' := r\<rparr>
      in case mat_add (mat_div G (of_real (sqrt (real (Nh m2)))))
                      (mat_scale castI (zeros (Nh m2) (Nh m2))) of
           Inl e \<Rightarrow> Inl e
         | Inr M \<Rightarrow> Inr (m2\<lparr>H' := M\<rparr>))"

text \<open>
  A matrix is symmetric, or Hermitian, with respect to a conjugation \<open>cj\<close> (the identity
  for a real scalar type, \<^const>\<open>cnj\<close> for a complex one) when it is square and
  \<open>M(i, j) = cj (M(j, i))\<close>.
\<close>

definition is_hermitian :: "('a \<Rightarrow> 'a) \<Rightarrow> 'a Mat \<Rightarrow> bool" where
  "is_hermitian cj M \<longleftrightarrow>
     n_rows M = n_cols M \<and>
     (\<forall>i \<in> {0..<n_rows M}. \<forall>j \<in> {0..<n_rows M}. elem M i j = cj (elem M j i))"

text \<open>
  Modelled from the spec: the sampler of the linear-algebra collaborator, ``a
  Gaussian-orthogonal-ensemble sampler parameterized by dimension'', where the ensemble
  is ``a symmetric random-matrix distribution''. Its code is not among the sources; the
  contract is that every \<open>n \<times> n\<close> sample is an \<open>n \<times> n\<close> matrix, and (second predicate)
  that it is symmetric, Hermitian for a complex scalar type.
\<close>

definition GOE_shape :: "('rng \<Rightarrow> nat \<Rightarrow> nat \<Rightarrow> 'a Mat \<times> 'rng) \<Rightarrow> bool" where
  "GOE_shape GOE \<longleftrightarrow> (\<forall>r n. is_Mat n n (fst (GOE r n n)))"

definition GOE_symmetric ::
  "('a \<Rightarrow> 'a) \<Rightarrow> ('rng \<Rightarrow> nat \<Rightarrow> nat \<Rightarrow> 'a Mat \<times> 'rng) \<Rightarrow> bool" where
  "GOE_symmetric cj GOE \<longleftrightarrow> (\<forall>r n. is_hermitian cj (fst (GOE r n n)))"

subsection \<open>A concrete sampler and model\<close>

text \<open>
  A sampler and a model to run the definitions on: the state of the stream is a counter,
  every entry of a sample is the value of the counter, and drawing advances it.
\<close>

definition example_GOE :: "nat \<Rightarrow> nat \<Rightarrow> nat \<Rightarrow> 'a::semiring_1 Mat \<times> nat" where
  "example_GOE r n m = (\<lparr>n_rows = n, n_cols = m, mem = replicate (n * m) (of_nat r)\<rparr>, Suc r)"

definition example_model :: "('a::zero, nat) SYK2" where
  "example_model =
     \<lparr>type' = SYK2_M, lat' = None, Ns' = 4, Nh = 4, H' = zeros 4 4, ran' = 3,
      info' = ''_SYK2,Ns=4,BC=PBC''\<rparr>"

chapter \<open>Properties\<close>

section \<open>Resizing the parameter arrays\<close>

lemma unat_minus_one_u64: "unat (- 1 :: u64) = 2 ^ 64 - 1"
  by (simp add: unsigned_minus_1_eq_mask mask_eq_exp_minus_1)

lemma resize_minus_one: "resize avail v (- 1) = Inl LengthError"
  by (simp add: resize_def vector_max_size_def unat_minus_one_u64)

lemma unat_sub_under:
  fixes a b :: u64
  assumes "unat a < unat b"
  shows "unat (a - b) = 2 ^ 64 - (unat b - unat a)"
proof -
  have "unat (a - b) = (unat a + 2 ^ 64 - unat b) mod 2 ^ 64"
    using unat_sub_if_size [of a b] assms unsigned_less [of b] unsigned_less [of a]
    by (auto simp: word_size split: if_splits)
  moreover have "unat a + 2 ^ 64 - unat b < 2 ^ 64" using assms by simp
  ultimately show ?thesis using assms unsigned_less [of b, where 'a = nat] by simp
qed

text \<open>The guard of both operations compares an unsigned value with zero.\<close>

lemma size_t_never_negative: "\<not> (N :: size_t) < 0"
  by simp

text \<open>Whenever the total is below the sub-population count by at most \<open>2\<^sup>6\<^sup>3\<close>, the
  wrapped size exceeds \<^verbatim>\<open>max_size()\<close> and the first \<^verbatim>\<open>resize\<close> throws.\<close>

lemma resizeQSM_underflow:
  assumes "unat (qsm_Ntot' q) < unat (qsm_N' q)"
    and "unat (qsm_N' q) - unat (qsm_Ntot' q) \<le> 2 ^ 63"
  shows "resizeQSM avail q = Inl LengthError"
proof -
  have "unat (qsm_Ntot' q - qsm_N' q) = 2 ^ 64 - (unat (qsm_N' q) - unat (qsm_Ntot' q))"
    using assms(1) by (rule unat_sub_under)
  with assms(2) have "vector_max_size 8 < unat (qsm_Ntot' q - qsm_N' q)"
    by (simp add: vector_max_size_def)
  then show ?thesis
    by (simp add: resizeQSM_def resize_def Let_def)
qed

lemma resizeUM_underflow:
  assumes "unat (um_Ntot' u) < unat (um_N' u)"
    and "unat (um_N' u) - unat (um_Ntot' u) \<le> 2 ^ 63"
  shows "resizeUM avail u = Inl LengthError"
proof -
  have "unat (um_Ntot' u - um_N' u) = 2 ^ 64 - (unat (um_N' u) - unat (um_Ntot' u))"
    using assms(1) by (rule unat_sub_under)
  with assms(2) have "vector_max_size 8 < unat (um_Ntot' u - um_N' u)"
    by (simp add: vector_max_size_def)
  then show ?thesis
    by (simp add: resizeUM_def resize_def Let_def)
qed

text \<open>
  C1. The claim: when the sub-population count exceeds the total (\<^verbatim>\<open>qsm_Ntot_ < qsm_N_\<close>,
  \<^verbatim>\<open>um_Ntot_ < um_N_\<close>), \<^verbatim>\<open>resizeQSM\<close> and \<^verbatim>\<open>resizeUM\<close> leave the dependent arrays at
  size zero and do not throw. The code: the counts are \<^verbatim>\<open>size_t\<close>, the difference wraps
  around, the guard \<^verbatim>\<open>_N < 0\<close> is never taken, and \<^verbatim>\<open>resize\<close> is called with the wrapped
  size. On a fresh structure with total 1 and sub-population count 2 both operations end
  in \<^verbatim>\<open>std::length_error\<close>, whatever the allocator can provide.
\<close>

theorem resize_underflow_throws:
  "resizeQSM avail (qsm_t_init\<lparr>qsm_Ntot' := 1, qsm_N' := 2\<rparr>) = Inl LengthError \<and>
   resizeUM avail (ultrametric_t_init\<lparr>um_Ntot' := 1, um_N' := 2\<rparr>) = Inl LengthError"
  by (simp add: resizeQSM_def resizeUM_def qsm_t_init_def ultrametric_t_init_def
      resize_minus_one Let_def)

section \<open>Default values\<close>

lemma setDefault_ultrametric: "ultrametric (setDefault m) = ultrametric m"
  by (simp add: setDefault_def)

lemma setDefault_power_law_random_bandwidth:
  "power_law_random_bandwidth (setDefault m) = power_law_random_bandwidth m"
  by (simp add: setDefault_def)

lemma setDefault_siblings:
  "Kx' (setDefault m) = [1] \<and> Ky' (setDefault m) = [1] \<and> Kz' (setDefault m) = [1] \<and>
   heiJ' (setDefault m) = [1] \<and> heiDlt' (setDefault m) = [1] \<and>
   heiHx' (setDefault m) = [1] \<and> heiHz' (setDefault m) = [1] \<and>
   qsm_alpha' (qsm (setDefault m)) = [1] \<and> qsm_xi' (qsm (setDefault m)) = [1] \<and>
   qsm_h' (qsm (setDefault m)) = [1] \<and> rp_g' (rosenzweig_porter (setDefault m)) = [1]"
  by (simp add: setDefault_def)

text \<open>
  C2. The claim: after \<^verbatim>\<open>setDefault()\<close> every family's coupling arrays are non-empty,
  \<^verbatim>\<open>um_alpha_\<close> and \<^verbatim>\<open>plrb_a_\<close> included. The code: \<^verbatim>\<open>setDefault()\<close> assigns the Kitaev,
  Heisenberg, QSM and Rosenzweig-Porter arrays and never touches the Ultrametric and
  power-law structures. On a freshly constructed record \<^verbatim>\<open>um_alpha_\<close> and \<^verbatim>\<open>plrb_a_\<close> are
  still empty afterwards, while the sibling arrays hold one element.
\<close>

theorem setDefault_leaves_um_plrb_empty:
  "um_alpha' (ultrametric (setDefault ModP_init)) = [] \<and>
   plrb_a' (power_law_random_bandwidth (setDefault ModP_init)) = [] \<and>
   Kx' (setDefault ModP_init) = [1] \<and>
   heiJ' (setDefault ModP_init) = [1] \<and>
   qsm_alpha' (qsm (setDefault ModP_init)) = [1] \<and>
   rp_g' (rosenzweig_porter (setDefault ModP_init)) = [1]"
  by (simp add: setDefault_def ModP_init_def ultrametric_t_init_def)

section \<open>The U(1) sectors\<close>

lemma popcount_card: "popcount w = card {i. bit w i}"
proof -
  have "{i. bit w i} = {i. bit w i} \<inter> set [0..<64]"
    by (auto dest: bit_imp_le_length)
  then show ?thesis
    unfolding popcount_def by (simp add: distinct_length_filter Int_commute)
qed

lemma bit_nat_imp_ge: "bit (n::nat) i \<Longrightarrow> 2 ^ i \<le> n"
proof (rule ccontr)
  assume b: "bit n i" and "\<not> 2 ^ i \<le> n"
  then have "n div 2 ^ i = 0" by simp
  with b show False by (simp add: bit_iff_odd)
qed

lemma bit_imp_ge: "bit (w::u64) i \<Longrightarrow> 2 ^ i \<le> unat w"
  by (rule bit_nat_imp_ge) (simp add: bit_unsigned_iff)

lemma bits_below: "unat (s::u64) < 2 ^ Ns \<Longrightarrow> {i. bit s i} \<subseteq> {..<Ns}"
proof
  fix i assume a: "unat s < 2 ^ Ns" and "i \<in> {i. bit s i}"
  then have "(2::nat) ^ i \<le> unat s" by (simp add: bit_imp_ge)
  with a have "(2::nat) ^ i < 2 ^ Ns" by (rule le_less_trans [rotated])
  then show "i \<in> {..<Ns}" by simp
qed

lemma popcount_le: "unat (s::u64) < 2 ^ Ns \<Longrightarrow> popcount s \<le> Ns"
proof -
  assume "unat s < 2 ^ Ns"
  then have "card {i. bit s i} \<le> card {..<Ns}"
    by (intro card_mono bits_below) simp_all
  then show ?thesis by (simp add: popcount_card)
qed

lemma inj_bits: "inj (\<lambda>s::u64. {i. bit s i})"
  by (rule injI) (auto intro: bit_word_eqI)

lemma bits_word_of_set:
  assumes "A \<subseteq> {..<Ns}" "Ns \<le> 64"
  shows "{i. bit (word_of_nat (set_encode A) :: u64) i} = A"
proof -
  have fin: "finite A" using assms(1) by (rule finite_subset) simp
  have "bit (set_encode A) i \<longleftrightarrow> i \<in> A" for i
    using set_encode_inverse [OF fin] by (auto simp: set_decode_def bit_iff_odd)
  moreover have "i \<in> A \<Longrightarrow> i < 64" for i using assms by auto
  ultimately show ?thesis by (auto simp: bit_of_nat_iff)
qed

lemma unat_less_of_bits:
  assumes "{i. bit (w::u64) i} \<subseteq> {..<Ns}"
  shows "unat w < 2 ^ Ns"
proof -
  have "take_bit Ns w = w"
    using assms by (intro bit_word_eqI) (auto simp: bit_take_bit_iff)
  then have "unat w = take_bit Ns (unat w)"
    by (metis unsigned_take_bit_eq)
  then show ?thesis
    by (metis take_bit_nat_less_exp)
qed

text \<open>The states below \<open>2 ^ Ns\<close> with \<open>k\<close> set bits correspond to the \<open>k\<close>-element subsets
  of the \<open>Ns\<close> bit positions.\<close>

lemma sector_image:
  assumes "Ns \<le> 64"
  shows "(\<lambda>s::u64. {i. bit s i}) ` {s. unat s < 2 ^ Ns \<and> popcount s = k}
         = {B. B \<subseteq> {..<Ns} \<and> card B = k}" (is "?f ` ?S = ?T")
proof (intro equalityI subsetI)
  fix B assume "B \<in> ?f ` ?S"
  then obtain s where s: "unat s < 2 ^ Ns" "popcount s = k" and B: "B = {i. bit s i}"
    by blast
  have "B \<subseteq> {..<Ns}" unfolding B using s(1) by (rule bits_below)
  moreover have "card B = k" unfolding B using s(2) by (simp only: popcount_card)
  ultimately show "B \<in> ?T" by simp
next
  fix B assume "B \<in> ?T"
  then have B: "B \<subseteq> {..<Ns}" "card B = k" by simp_all
  define w :: u64 where "w = word_of_nat (set_encode B)"
  have eq: "{i. bit w i} = B" unfolding w_def using B(1) assms by (rule bits_word_of_set)
  have "unat w < 2 ^ Ns"
    by (rule unat_less_of_bits) (simp only: eq B(1))
  moreover have "popcount w = k" by (simp only: popcount_card eq B(2))
  ultimately have "w \<in> ?S" by simp
  then have "?f w \<in> ?f ` ?S" by (rule imageI)
  then show "B \<in> ?f ` ?S" by (simp only: eq)
qed

lemma sector_card:
  assumes "Ns \<le> 64"
  shows "card {s::u64. unat s < 2 ^ Ns \<and> popcount s = k} = Ns choose k"
proof -
  have "card {s::u64. unat s < 2 ^ Ns \<and> popcount s = k}
        = card ((\<lambda>s::u64. {i. bit s i}) ` {s. unat s < 2 ^ Ns \<and> popcount s = k})"
    by (rule card_image [symmetric]) (rule inj_on_subset [OF inj_bits], simp)
  also have "\<dots> = card {B. B \<subseteq> {..<Ns} \<and> card B = k}"
    by (simp only: sector_image [OF assms])
  also have "\<dots> = Ns choose k"
    using n_subsets [of "{..<Ns}" k] by simp
  finally show ?thesis .
qed

lemma U1Sym_nat: "U1Sym s (real k) \<longleftrightarrow> popcount s = k"
  by (simp add: U1Sym_def)

text \<open>
  C3. For every \<open>Ns\<close> from 1 to 20 and every \<open>k\<close> from 0 to \<open>Ns\<close>, the number of basis
  states \<open>s\<close> in \<open>[0, 2 ^ Ns)\<close> that \<^verbatim>\<open>U1Sym(s, k)\<close> accepts is the binomial coefficient
  \<open>C(Ns, k)\<close>.
\<close>

theorem U1_sector_size:
  "1 \<le> Ns \<Longrightarrow> Ns \<le> 20 \<Longrightarrow> k \<le> Ns \<Longrightarrow>
   card {s::u64. unat s < 2 ^ Ns \<and> U1Sym s (real k)} = Ns choose k"
  using sector_card [of Ns k] by (simp add: U1Sym_def)

theorem U1_sector_size_witness:
  "(1::nat) \<le> 4 \<and> (4::nat) \<le> 20 \<and> (2::nat) \<le> 4 \<and>
   card {s::u64. unat s < 2 ^ 4 \<and> U1Sym s 2} = 6"
  using U1_sector_size [of 4 2] by (simp add: choose_two)

text \<open>
  C4. For every \<open>Ns\<close>, the U(1) sectors for the targets \<open>k\<close> in \<open>[0, Ns]\<close> are pairwise
  disjoint, their union is the whole space of states below \<open>2 ^ Ns\<close>, and every state
  belongs to exactly one sector.
\<close>

theorem U1_sectors_partition:
  "(\<forall>j k. j \<noteq> k \<longrightarrow>
      {s::u64. unat s < 2 ^ Ns \<and> U1Sym s (real j)} \<inter>
      {s. unat s < 2 ^ Ns \<and> U1Sym s (real k)} = {}) \<and>
   (\<Union>k \<in> {0..Ns}. {s::u64. unat s < 2 ^ Ns \<and> U1Sym s (real k)}) = {s. unat s < 2 ^ Ns} \<and>
   (\<forall>s::u64. unat s < 2 ^ Ns \<longrightarrow> (\<exists>!k. k \<le> Ns \<and> U1Sym s (real k)))"
  unfolding U1Sym_nat
proof (intro conjI allI impI)
  fix j k :: nat assume "j \<noteq> k"
  then show "{s::u64. unat s < 2 ^ Ns \<and> popcount s = j} \<inter>
      {s. unat s < 2 ^ Ns \<and> popcount s = k} = {}"
    by blast
next
  show "(\<Union>k \<in> {0..Ns}. {s::u64. unat s < 2 ^ Ns \<and> popcount s = k}) = {s. unat s < 2 ^ Ns}"
  proof (intro set_eqI iffI)
    fix s :: u64 assume "s \<in> (\<Union>k \<in> {0..Ns}. {s::u64. unat s < 2 ^ Ns \<and> popcount s = k})"
    then show "s \<in> {s. unat s < 2 ^ Ns}" by blast
  next
    fix s :: u64 assume "s \<in> {s. unat s < 2 ^ Ns}"
    then have a: "unat s < 2 ^ Ns" by simp
    then have "popcount s \<in> {0..Ns}" using popcount_le [OF a] by simp
    with a show "s \<in> (\<Union>k \<in> {0..Ns}. {s::u64. unat s < 2 ^ Ns \<and> popcount s = k})" by blast
  qed
next
  fix s :: u64 assume "unat s < 2 ^ Ns"
  then have "popcount s \<le> Ns" by (rule popcount_le)
  then show "\<exists>!k. k \<le> Ns \<and> popcount s = k" by blast
qed

theorem U1_sectors_partition_witness:
  "(1::nat) \<noteq> 2 \<and>
   {s::u64. unat s < 2 ^ 4 \<and> U1Sym s (real 1)} \<inter> {s. unat s < 2 ^ 4 \<and> U1Sym s (real 2)} = {} \<and>
   unat (5::u64) < 2 ^ 4 \<and> (\<exists>!k. k \<le> (4::nat) \<and> U1Sym 5 (real k))"
proof -
  from U1_sectors_partition [of 4]
  have d: "\<And>j k. j \<noteq> k \<Longrightarrow>
      {s::u64. unat s < 2 ^ 4 \<and> U1Sym s (real j)} \<inter>
      {s. unat s < 2 ^ 4 \<and> U1Sym s (real k)} = {}"
    and e: "\<And>s::u64. unat s < 2 ^ 4 \<Longrightarrow> \<exists>!k. k \<le> 4 \<and> U1Sym s (real k)"
    by blast+
  have "unat (5::u64) < 2 ^ 4" by simp
  with d [of 1 2] e [of 5] show ?thesis by simp
qed

section \<open>Evaluating a symmetry generator\<close>

lemma check_fold_setName: "check' (fold setName ns g) = check' g"
  by (induction ns arbitrary: g) (simp_all add: setName_def)

text \<open>
  C5. A generator on which \<^verbatim>\<open>setFun\<close> has never been called (constructed, renamed any
  number of times, its public target set to any value) fails with
  \<^verbatim>\<open>std::bad_function_call\<close> when it is evaluated, for every state: it returns neither
  true nor false.
\<close>

theorem evaluate_unset_fails:
  "call_op ((fold setName ns (GlobalSym_ctor lat nm))\<lparr>val' := t\<rparr>) s = Inl BadFunctionCall"
  by (simp add: call_op_def check_fold_setName GlobalSym_ctor_def)

text \<open>
  C6. With the predicate \<open>p\<close> installed and the target \<open>t\<close>, evaluating a state \<open>s\<close> returns
  \<open>p s t\<close>, and \<^verbatim>\<open>check(s, c)\<close> returns \<open>p s t \<and> c\<close>.
\<close>

theorem evaluate_and_check:
  "call_op ((setFun p g)\<lparr>val' := t\<rparr>) s = Inr (p s t) \<and>
   check ((setFun p g)\<lparr>val' := t\<rparr>) s c = Inr (p s t \<and> c)"
  by (simp add: call_op_def check_def setFun_def)

section \<open>The random realisation count\<close>

lemma size_v_unat: "length v \<le> vector_max_size 4 \<Longrightarrow> unat (size_v v) = length v"
  by (simp add: size_v_def vector_max_size_def unat_of_nat)

lemma ucast_uint_unat: "unat (ucast (i::uint) :: size_t) = unat i"
  by (simp add: unsigned_ucast_eq take_bit_nat_eq_self unsigned_less [THEN less_trans])

text \<open>
  C10. For a record whose \<^verbatim>\<open>modRanN_\<close> is non-empty, \<^verbatim>\<open>getRanReal(i)\<close> returns for every
  index \<open>i\<close>: the element \<open>i\<close> when \<open>i\<close> is below the size, the last element otherwise.
  On an empty \<^verbatim>\<open>modRanN_\<close> the access is out of bounds. A vector of \<^verbatim>\<open>uint\<close> never holds
  more than \<^verbatim>\<open>max_size()\<close> elements.
\<close>

theorem getRanReal_total:
  assumes "length (modRanN' m) \<le> vector_max_size 4"
  shows "(modRanN' m \<noteq> [] \<longrightarrow>
            getRanReal m i =
              Inr (if unat i < length (modRanN' m) then modRanN' m ! unat i
                   else modRanN' m ! (length (modRanN' m) - 1))) \<and>
         (modRanN' m = [] \<longrightarrow> getRanReal m i = Inl OutOfBounds)"
proof -
  let ?v = "modRanN' m"
  have sz: "unat (size_v ?v) = length ?v" using assms by (rule size_v_unat)
  have lt: "ucast i < size_v ?v \<longleftrightarrow> unat i < length ?v"
    by (simp add: word_less_nat_alt sz ucast_uint_unat)
  have last: "unat (size_v ?v - 1) = length ?v - 1" if "?v \<noteq> []"
  proof -
    from that sz have "size_v ?v \<noteq> 0" by (metis length_0_conv unat_0)
    then show ?thesis by (simp add: unat_minus_one sz)
  qed
  show ?thesis
  proof (intro conjI impI)
    assume ne: "?v \<noteq> []"
    then show "getRanReal m i =
              Inr (if unat i < length ?v then ?v ! unat i else ?v ! (length ?v - 1))"
      by (simp add: getRanReal_def lt at_v_def ucast_uint_unat last)
  next
    assume "?v = []"
    then show "getRanReal m i = Inl OutOfBounds"
      by (simp add: getRanReal_def at_v_def size_v_def)
  qed
qed

theorem getRanReal_total_witness:
  "length (modRanN' (setDefault ModP_init)) \<le> vector_max_size 4 \<and>
   modRanN' (setDefault ModP_init) \<noteq> [] \<and>
   getRanReal (setDefault ModP_init) 7 = Inr 1 \<and>
   length (modRanN' ModP_init) \<le> vector_max_size 4 \<and>
   modRanN' ModP_init = [] \<and>
   getRanReal ModP_init 0 = Inl OutOfBounds"
  using getRanReal_total [of "setDefault ModP_init" 7] getRanReal_total [of ModP_init 0]
  by (simp add: setDefault_def ModP_init_def vector_max_size_def)

section \<open>The SYK2 matrix\<close>

lemma map2_add_zeros:
  "length xs = k \<Longrightarrow> map2 (+) xs (replicate k (0::'a::monoid_add)) = xs"
  by (induction xs arbitrary: k) auto

lemma mem_scaled_zeros:
  "mem (mat_scale c (zeros n m)) = replicate (n * m) (0::'a::mult_zero)"
  by (simp add: mat_scale_def zeros_def)

lemma add_scaled_zeros:
  fixes A :: "'a::semiring_0 Mat"
  assumes "is_Mat n n A"
  shows "mat_add A (mat_scale c (zeros n n)) = Inr A"
  using assms
  by (simp add: mat_add_def is_Mat_def mem_scaled_zeros map2_add_zeros)
     (simp add: mat_scale_def zeros_def)

lemma is_Mat_div: "is_Mat n m A \<Longrightarrow> is_Mat n m (mat_div A s)"
  by (simp add: is_Mat_def mat_div_def)

text \<open>What \<^verbatim>\<open>hamiltonian()\<close> computes, for a sampler that returns matrices of the
  requested shape.\<close>

lemma hamiltonian_eq:
  fixes m :: "('a::real_normed_field, 'rng) SYK2"
  assumes "GOE_shape GOE"
  shows "hamiltonian init GOE castI m =
     Inr ((init m)\<lparr>ran' := snd (GOE (ran' (init m)) (Nh (init m)) (Nh (init m))),
                   H' := mat_div (fst (GOE (ran' (init m)) (Nh (init m)) (Nh (init m))))
                           (of_real (sqrt (real (Nh (init m)))))\<rparr>)"
proof -
  let ?n = "Nh (init m)"
  let ?G = "fst (GOE (ran' (init m)) ?n ?n)"
  have "is_Mat ?n ?n ?G" using assms by (simp add: GOE_shape_def)
  then have "is_Mat ?n ?n (mat_div ?G (of_real (sqrt (real ?n))))" by (rule is_Mat_div)
  then have "mat_add (mat_div ?G (of_real (sqrt (real ?n)))) (mat_scale castI (zeros ?n ?n))
             = Inr (mat_div ?G (of_real (sqrt (real ?n))))"
    by (rule add_scaled_zeros)
  then show ?thesis
    by (simp add: hamiltonian_def Let_def case_prod_beta)
qed

lemma hamiltonian_result:
  fixes m :: "('a::real_normed_field, 'rng) SYK2"
  assumes "GOE_shape GOE" "hamiltonian init GOE castI m = Inr m'"
  shows "Nh m' = Nh (init m)"
    and "H' m' = mat_div (fst (GOE (ran' (init m)) (Nh (init m)) (Nh (init m))))
                   (of_real (sqrt (real (Nh (init m)))))"
proof -
  have "m' = (init m)\<lparr>ran' := snd (GOE (ran' (init m)) (Nh (init m)) (Nh (init m))),
                   H' := mat_div (fst (GOE (ran' (init m)) (Nh (init m)) (Nh (init m))))
                           (of_real (sqrt (real (Nh (init m)))))\<rparr>"
    using assms(2) unfolding hamiltonian_eq [OF assms(1)]
    by (rule sum.inject [THEN iffD1, symmetric])
  then show "Nh m' = Nh (init m)"
    and "H' m' = mat_div (fst (GOE (ran' (init m)) (Nh (init m)) (Nh (init m))))
                   (of_real (sqrt (real (Nh (init m)))))"
    by simp_all
qed

lemma example_GOE_shape: "GOE_shape example_GOE"
  by (simp add: GOE_shape_def example_GOE_def is_Mat_def)

text \<open>
  C7. Every call of \<^verbatim>\<open>hamiltonian()\<close> assigns to \<^verbatim>\<open>H_\<close> the \<open>Nh \<times> Nh\<close> sample drawn from the
  model's stream, divided by \<open>sqrt Nh\<close>; the stream is advanced, so the next call draws
  anew. The buffer's contents before the assignment do not enter: whatever \<^verbatim>\<open>init()\<close>
  leaves in \<^verbatim>\<open>H_\<close>, the result is the same, and when the buffer's contents before the call
  reach no member other than \<^verbatim>\<open>H_\<close> through \<^verbatim>\<open>init()\<close>, the result is the same for every
  such contents. The sampler is any function that returns matrices of the requested
  shape.
\<close>

theorem hamiltonian_overwrites:
  fixes m :: "('a::real_normed_field, 'rng) SYK2"
  assumes "GOE_shape GOE"
  shows "hamiltonian init GOE castI m =
     Inr ((init m)\<lparr>ran' := snd (GOE (ran' (init m)) (Nh (init m)) (Nh (init m))),
                   H' := mat_div (fst (GOE (ran' (init m)) (Nh (init m)) (Nh (init m))))
                           (of_real (sqrt (real (Nh (init m)))))\<rparr>) \<and>
     is_Mat (Nh (init m)) (Nh (init m))
       (mat_div (fst (GOE (ran' (init m)) (Nh (init m)) (Nh (init m))))
          (of_real (sqrt (real (Nh (init m)))))) \<and>
     (\<forall>h. hamiltonian (\<lambda>s. (init s)\<lparr>H' := h\<rparr>) GOE castI m = hamiltonian init GOE castI m) \<and>
     (\<forall>h. (init (m\<lparr>H' := h\<rparr>))\<lparr>H' := H' (init m)\<rparr> = init m \<longrightarrow>
          hamiltonian init GOE castI (m\<lparr>H' := h\<rparr>) = hamiltonian init GOE castI m)"
proof (intro conjI allI impI)
  show "hamiltonian init GOE castI m =
     Inr ((init m)\<lparr>ran' := snd (GOE (ran' (init m)) (Nh (init m)) (Nh (init m))),
                   H' := mat_div (fst (GOE (ran' (init m)) (Nh (init m)) (Nh (init m))))
                           (of_real (sqrt (real (Nh (init m)))))\<rparr>)"
    by (rule hamiltonian_eq [OF assms])
  have "is_Mat (Nh (init m)) (Nh (init m)) (fst (GOE (ran' (init m)) (Nh (init m)) (Nh (init m))))"
    using assms by (simp add: GOE_shape_def)
  then show "is_Mat (Nh (init m)) (Nh (init m))
       (mat_div (fst (GOE (ran' (init m)) (Nh (init m)) (Nh (init m))))
          (of_real (sqrt (real (Nh (init m))))))"
    by (rule is_Mat_div)
next
  fix h
  show "hamiltonian (\<lambda>s. (init s)\<lparr>H' := h\<rparr>) GOE castI m = hamiltonian init GOE castI m"
    by (simp add: hamiltonian_eq [OF assms])
next
  fix h
  assume "(init (m\<lparr>H' := h\<rparr>))\<lparr>H' := H' (init m)\<rparr> = init m"
  then obtain X where X: "init m = (init (m\<lparr>H' := h\<rparr>))\<lparr>H' := X\<rparr>" by metis
  show "hamiltonian init GOE castI (m\<lparr>H' := h\<rparr>) = hamiltonian init GOE castI m"
    unfolding hamiltonian_eq [OF assms] X by simp
qed

theorem hamiltonian_overwrites_witness:
  "GOE_shape (example_GOE :: nat \<Rightarrow> nat \<Rightarrow> nat \<Rightarrow> real Mat \<times> nat) \<and>
   hamiltonian (\<lambda>s. s) example_GOE 0 (example_model :: (real, nat) SYK2) =
     Inr (example_model\<lparr>ran' := 4,
            H' := \<lparr>n_rows = 4, n_cols = 4, mem = replicate 16 (3 / 2)\<rparr>\<rparr>) \<and>
   hamiltonian (\<lambda>s. s) example_GOE 0 ((example_model :: (real, nat) SYK2)\<lparr>H' := zeros 1 1\<rparr>) =
     hamiltonian (\<lambda>s. s) example_GOE 0 example_model"
proof -
  note t = hamiltonian_overwrites [OF example_GOE_shape, of "\<lambda>s. s" 0
      "example_model :: (real, nat) SYK2"]
  from t have a: "hamiltonian (\<lambda>s. s) example_GOE 0 (example_model :: (real, nat) SYK2) =
     Inr (example_model\<lparr>ran' := 4,
            H' := \<lparr>n_rows = 4, n_cols = 4, mem = replicate 16 (3 / 2)\<rparr>\<rparr>)"
    by (simp add: example_model_def example_GOE_def mat_div_def)
  from t have "\<forall>h. (example_model :: (real, nat) SYK2)\<lparr>H' := h\<rparr>\<lparr>H' := H' example_model\<rparr>
        = example_model \<longrightarrow>
      hamiltonian (\<lambda>s. s) example_GOE 0 ((example_model :: (real, nat) SYK2)\<lparr>H' := h\<rparr>) =
      hamiltonian (\<lambda>s. s) example_GOE 0 example_model"
    by blast
  then have b: "hamiltonian (\<lambda>s. s) example_GOE 0
        ((example_model :: (real, nat) SYK2)\<lparr>H' := zeros 1 1\<rparr>) =
      hamiltonian (\<lambda>s. s) example_GOE 0 example_model"
    by simp
  show ?thesis by (intro conjI example_GOE_shape a b)
qed

section \<open>Symmetry of the SYK2 matrix\<close>

lemma idx_bound: "i < n \<Longrightarrow> j < n \<Longrightarrow> i + j * n < n * (n::nat)"
proof -
  assume a: "i < n" "j < n"
  then have "Suc j * n \<le> n * n" by (intro mult_le_mono1) simp
  with a show ?thesis by simp
qed

lemma elem_div:
  "is_Mat n n M \<Longrightarrow> i < n \<Longrightarrow> j < n \<Longrightarrow> elem (mat_div M s) i j = elem M i j / s"
  by (simp add: elem_def mat_div_def is_Mat_def idx_bound)

lemma hermitian_elem:
  "is_hermitian cj M \<Longrightarrow> i < n_rows M \<Longrightarrow> j < n_rows M \<Longrightarrow> elem M i j = cj (elem M j i)"
  unfolding is_hermitian_def atLeast0LessThan Ball_def lessThan_iff by blast

text \<open>Dividing every element by the same real scalar keeps a matrix symmetric, or
  Hermitian.\<close>

lemma hermitian_div:
  fixes M :: "'a::real_normed_field Mat"
  assumes M: "is_Mat n n M" and h: "is_hermitian cj M"
    and cj: "\<And>x. cj (x / of_real s) = cj x / of_real s"
  shows "is_hermitian cj (mat_div M (of_real s))"
proof -
  let ?D = "mat_div M (of_real s)"
  have n: "n_rows M = n" using M by (simp add: is_Mat_def)
  have r: "n_rows ?D = n" and c: "n_cols ?D = n"
    using M by (simp_all add: mat_div_def is_Mat_def)
  have e: "elem ?D i j = cj (elem ?D j i)" if ij: "i < n" "j < n" for i j
  proof -
    have "elem M i j = cj (elem M j i)"
      by (rule hermitian_elem [OF h]) (simp_all only: n ij)
    then have "elem M i j / of_real s = cj (elem M j i / of_real s)"
      by (simp only: cj)
    then show ?thesis
      by (simp only: elem_div [OF M ij] elem_div [OF M ij(2) ij(1)])
  qed
  show ?thesis
    unfolding is_hermitian_def atLeast0LessThan Ball_def lessThan_iff
  proof (intro conjI allI impI)
    show "n_rows ?D = n_cols ?D" by (simp only: r c)
  next
    fix i j assume "i < n_rows ?D" "j < n_rows ?D"
    then have "i < n" "j < n" by (simp_all only: r)
    then show "elem ?D i j = cj (elem ?D j i)" by (rule e)
  qed
qed

lemma hamiltonian_hermitian:
  fixes m :: "('a::real_normed_field, 'rng) SYK2"
  assumes sh: "GOE_shape GOE" and sy: "GOE_symmetric cj GOE"
    and cj: "\<And>x s. cj (x / of_real s) = cj x / of_real s"
    and run: "hamiltonian init GOE castI m = Inr m'"
  shows "is_Mat (Nh m') (Nh m') (H' m')" and "is_hermitian cj (H' m')"
proof -
  let ?n = "Nh (init m)"
  let ?G = "fst (GOE (ran' (init m)) ?n ?n)"
  have G: "is_Mat ?n ?n ?G" "is_hermitian cj ?G"
    using sh sy by (simp_all add: GOE_shape_def GOE_symmetric_def)
  show "is_Mat (Nh m') (Nh m') (H' m')"
    unfolding hamiltonian_result [OF sh run] using G(1) by (rule is_Mat_div)
  show "is_hermitian cj (H' m')"
    unfolding hamiltonian_result [OF sh run] using G cj by (rule hermitian_div)
qed

lemma example_GOE_symmetric:
  "cj (of_nat r) = of_nat r \<Longrightarrow> is_hermitian cj (fst (example_GOE r n n))"
  by (simp add: is_hermitian_def example_GOE_def elem_def idx_bound)

lemma example_GOE_symmetric_real: "GOE_symmetric (\<lambda>x::real. x) example_GOE"
  by (simp add: GOE_symmetric_def example_GOE_symmetric)

lemma example_GOE_symmetric_complex: "GOE_symmetric cnj example_GOE"
  by (simp add: GOE_symmetric_def example_GOE_symmetric)

text \<open>
  C8. Every matrix that \<^verbatim>\<open>hamiltonian()\<close> produces is symmetric for a real scalar type and
  Hermitian for a complex one, to within the relative tolerance \<open>10\<^sup>-\<^sup>9\<close> (here: exactly),
  with no symmetrisation step after the sample is drawn. The sampler is any function
  that keeps the contract of the spec: an \<open>n \<times> n\<close> sample, symmetric (Hermitian).
\<close>

theorem hamiltonian_symmetric:
  fixes mr :: "(real, 'rng) SYK2" and mc :: "(complex, 'rng) SYK2"
  shows "(GOE_shape GOEr \<and> GOE_symmetric (\<lambda>x. x) GOEr \<and>
          hamiltonian initr GOEr castIr mr = Inr mr' \<longrightarrow>
            is_Mat (Nh mr') (Nh mr') (H' mr') \<and> is_hermitian (\<lambda>x. x) (H' mr') \<and>
            (\<forall>i < Nh mr'. \<forall>j < Nh mr'.
               \<bar>elem (H' mr') i j - elem (H' mr') j i\<bar>
                 \<le> (1 / 10 ^ 9) * \<bar>elem (H' mr') i j\<bar>)) \<and>
         (GOE_shape GOEc \<and> GOE_symmetric cnj GOEc \<and>
          hamiltonian initc GOEc castIc mc = Inr mc' \<longrightarrow>
            is_Mat (Nh mc') (Nh mc') (H' mc') \<and> is_hermitian cnj (H' mc') \<and>
            (\<forall>i < Nh mc'. \<forall>j < Nh mc'.
               norm (elem (H' mc') i j - cnj (elem (H' mc') j i))
                 \<le> (1 / 10 ^ 9) * norm (elem (H' mc') i j)))"
proof (intro conjI impI; elim conjE)
  assume a: "GOE_shape GOEr" "GOE_symmetric (\<lambda>x. x) GOEr"
    "hamiltonian initr GOEr castIr mr = Inr mr'"
  have M: "is_Mat (Nh mr') (Nh mr') (H' mr')" and h: "is_hermitian (\<lambda>x. x) (H' mr')"
    using hamiltonian_hermitian [OF a(1) a(2) _ a(3)] by simp_all
  show "is_Mat (Nh mr') (Nh mr') (H' mr')" by (rule M)
  show "is_hermitian (\<lambda>x. x) (H' mr')" by (rule h)
  have n: "n_rows (H' mr') = Nh mr'" using M by (simp add: is_Mat_def)
  show "\<forall>i < Nh mr'. \<forall>j < Nh mr'.
               \<bar>elem (H' mr') i j - elem (H' mr') j i\<bar>
                 \<le> (1 / 10 ^ 9) * \<bar>elem (H' mr') i j\<bar>"
    by (simp add: n hermitian_elem [OF h, symmetric])
next
  assume a: "GOE_shape GOEc" "GOE_symmetric cnj GOEc"
    "hamiltonian initc GOEc castIc mc = Inr mc'"
  have M: "is_Mat (Nh mc') (Nh mc') (H' mc')" and h: "is_hermitian cnj (H' mc')"
    using hamiltonian_hermitian [OF a(1) a(2) _ a(3)] by simp_all
  show "is_Mat (Nh mc') (Nh mc') (H' mc')" by (rule M)
  show "is_hermitian cnj (H' mc')" by (rule h)
  have n: "n_rows (H' mc') = Nh mc'" using M by (simp add: is_Mat_def)
  show "\<forall>i < Nh mc'. \<forall>j < Nh mc'.
               norm (elem (H' mc') i j - cnj (elem (H' mc') j i))
                 \<le> (1 / 10 ^ 9) * norm (elem (H' mc') i j)"
    by (simp add: n hermitian_elem [OF h, symmetric])
qed

theorem hamiltonian_symmetric_witness:
  "GOE_shape (example_GOE :: nat \<Rightarrow> nat \<Rightarrow> nat \<Rightarrow> real Mat \<times> nat) \<and>
   GOE_symmetric (\<lambda>x::real. x) example_GOE \<and>
   hamiltonian (\<lambda>s. s) example_GOE 0 (example_model :: (real, nat) SYK2) =
     Inr (example_model\<lparr>ran' := 4,
            H' := \<lparr>n_rows = 4, n_cols = 4, mem = replicate 16 (3 / 2)\<rparr>\<rparr>) \<and>
   is_hermitian (\<lambda>x::real. x) \<lparr>n_rows = 4, n_cols = 4, mem = replicate 16 (3 / 2)\<rparr> \<and>
   GOE_shape (example_GOE :: nat \<Rightarrow> nat \<Rightarrow> nat \<Rightarrow> complex Mat \<times> nat) \<and>
   GOE_symmetric cnj example_GOE \<and>
   hamiltonian (\<lambda>s. s) example_GOE \<i> (example_model :: (complex, nat) SYK2) =
     Inr (example_model\<lparr>ran' := 4,
            H' := \<lparr>n_rows = 4, n_cols = 4, mem = replicate 16 (3 / 2)\<rparr>\<rparr>) \<and>
   is_hermitian cnj \<lparr>n_rows = 4, n_cols = 4, mem = replicate 16 (3 / 2 :: complex)\<rparr>"
proof -
  have r: "hamiltonian (\<lambda>s. s) example_GOE 0 (example_model :: (real, nat) SYK2) =
     Inr (example_model\<lparr>ran' := 4,
            H' := \<lparr>n_rows = 4, n_cols = 4, mem = replicate 16 (3 / 2)\<rparr>\<rparr>)"
    by (simp add: hamiltonian_eq [OF example_GOE_shape] example_model_def example_GOE_def
        mat_div_def)
  have c: "hamiltonian (\<lambda>s. s) example_GOE \<i> (example_model :: (complex, nat) SYK2) =
     Inr (example_model\<lparr>ran' := 4,
            H' := \<lparr>n_rows = 4, n_cols = 4, mem = replicate 16 (3 / 2)\<rparr>\<rparr>)"
    by (simp add: hamiltonian_eq [OF example_GOE_shape] example_model_def example_GOE_def
        mat_div_def)
  show ?thesis
    using hamiltonian_symmetric [where GOEr = example_GOE and GOEc = example_GOE
        and initr = "\<lambda>s. s" and initc = "\<lambda>s. s" and castIr = 0 and castIc = \<i>
        and mr = example_model and mc = example_model
        and mr' = "example_model\<lparr>ran' := 4,
            H' := \<lparr>n_rows = 4, n_cols = 4, mem = replicate 16 (3 / 2)\<rparr>\<rparr>"
        and mc' = "example_model\<lparr>ran' := 4,
            H' := \<lparr>n_rows = 4, n_cols = 4, mem = replicate 16 (3 / 2)\<rparr>\<rparr>"]
    by (simp add: r c example_GOE_shape example_GOE_symmetric_real
        example_GOE_symmetric_complex)
qed

section \<open>The construction paths of SYK2\<close>

lemma STR_num_4: "STR_num 4 = ''4''"
  by (simp add: STR_num.simps)

text \<open>
  C9, as stated: the construction from a lattice and the construction from the site
  count alone give the same cached info string. A model without a lattice reports
  \<^verbatim>\<open>BC=PBC\<close>, a model with a lattice reports the lattice's boundary condition: for a
  lattice of 4 sites with open boundary the two strings differ.
\<close>

theorem SYK2_info_lattice_vs_count:
  "info' (SYK2_lat (QuadraticHamiltonian_info []) (example_model :: (real, nat) SYK2)
            \<lparr>get_Ns = 4, get_BC = OBC\<rparr> 0) = ''_SYK2,Ns=4,BC=OBC'' \<and>
   info' (SYK2_Ns (QuadraticHamiltonian_info []) (example_model :: (real, nat) SYK2) 4 0)
     = ''_SYK2,Ns=4,BC=PBC'' \<and>
   info' (SYK2_lat (QuadraticHamiltonian_info []) (example_model :: (real, nat) SYK2)
            \<lparr>get_Ns = 4, get_BC = OBC\<rparr> 0) \<noteq>
   info' (SYK2_Ns (QuadraticHamiltonian_info []) (example_model :: (real, nat) SYK2) 4 0)"
  by (simp add: SYK2_lat_def SYK2_Ns_def QuadraticHamiltonian_lat_def
      QuadraticHamiltonian_Ns_def info_def QuadraticHamiltonian_info_def SSTR_def
      STR_num_4 Let_def)

text \<open>\<^verbatim>\<open>hamiltonian()\<close> reads neither the lattice handle nor the cached string: for an
  \<^verbatim>\<open>init()\<close> that leaves both alone, two models that differ only there produce the same
  matrix, stream and failure.\<close>

lemma hamiltonian_ignores_lat_info:
  fixes s :: "('a::real_normed_field, 'rng) SYK2"
  assumes "\<And>t l i. init (t\<lparr>lat' := l, info' := i\<rparr>) = (init t)\<lparr>lat' := l, info' := i\<rparr>"
  shows "hamiltonian init GOE castI (s\<lparr>lat' := l, info' := i\<rparr>) =
           map_sum id (\<lambda>t. t\<lparr>lat' := l, info' := i\<rparr>) (hamiltonian init GOE castI s)"
  by (simp add: hamiltonian_def Let_def case_prod_beta assms split: sum.splits)

lemma SYK2_Ns_as_lat:
  "SYK2_Ns qinfo b (get_Ns lat) c =
     (SYK2_lat qinfo b lat c)\<lparr>lat' := None, info' := info' (SYK2_Ns qinfo b (get_Ns lat) c)\<rparr>"
  by (simp add: Let_def SYK2_lat_def SYK2_Ns_def QuadraticHamiltonian_lat_def
      QuadraticHamiltonian_Ns_def)

lemma SYK2_hil_as_lat:
  "getLatticeSize hil = get_Ns lat \<Longrightarrow>
   SYK2_hil qinfo b hil c =
     (SYK2_lat qinfo b lat c)\<lparr>lat' := getLattice hil, info' := info' (SYK2_hil qinfo b hil c)\<rparr>"
  by (simp add: Let_def SYK2_lat_def SYK2_hil_def QuadraticHamiltonian_lat_def
      QuadraticHamiltonian_hil_def)

text \<open>
  C9, amended: for a lattice of \<open>Ns\<close> sites, the site count \<open>Ns\<close> and a descriptor of \<open>Ns\<close>
  sites, the four constructors set the type tag \<open>SYK2_M\<close> and the same \<open>Ns\<close> and \<open>Nh\<close>; the
  moving constructor gives the state of the copying one; the states of the three paths
  differ in the lattice handle and the cached info string only, so that, for every
  lattice, later calls of \<^verbatim>\<open>hamiltonian()\<close> give the same matrix, stream and failure on all
  of them (with an \<^verbatim>\<open>init()\<close> that leaves the lattice handle and the cached string alone).
  The info string of the lattice path reports the lattice's boundary condition, that of
  the site-count path reports \<^verbatim>\<open>BC=PBC\<close>. A descriptor over the lattice gives the state of
  the lattice path, a lattice-free descriptor the state of the site-count path; and when
  the lattice is periodic the lattice path and the site-count path cache the same info
  string, \<^verbatim>\<open>info\<close> returns the same string on both for all arguments, and the two states
  differ in the lattice handle only.
\<close>

theorem SYK2_constructors_equivalent:
  fixes b :: "('a::real_normed_field, 'rng) SYK2"
  assumes "getLatticeSize hil = get_Ns lat"
  shows "(let A = SYK2_lat qinfo b lat c;
              B = SYK2_Ns qinfo b (get_Ns lat) c;
              C = SYK2_hil qinfo b hil c;
              D = SYK2_hil_move qinfo b hil c
          in type' A = SYK2_M \<and> type' B = SYK2_M \<and> type' C = SYK2_M \<and> D = C \<and>
             Ns' A = get_Ns lat \<and> Ns' B = get_Ns lat \<and> Ns' C = get_Ns lat \<and>
             Nh A = get_Ns lat \<and> Nh B = get_Ns lat \<and> Nh C = get_Ns lat \<and>
             (getLattice hil = Some lat \<longrightarrow> C = A) \<and>
             (getLattice hil = None \<longrightarrow> C = B) \<and>
             (get_BC lat = PBC \<longrightarrow>
                info' A = info' B \<and> B = A\<lparr>lat' := None\<rparr> \<and>
                (\<forall>skip sep prec. info qinfo A skip sep prec = info qinfo B skip sep prec)) \<and>
             B = A\<lparr>lat' := None, info' := info' B\<rparr> \<and>
             C = A\<lparr>lat' := getLattice hil, info' := info' C\<rparr> \<and>
             info' A =
               qinfo (''_SYK2,Ns='' @ STR_num (get_Ns lat) @ '',BC='' @
                      getSTR_BoundaryConditions (get_BC lat)) [] ''_'' \<and>
             info' B = qinfo (''_SYK2,Ns='' @ STR_num (get_Ns lat) @ '',BC=PBC'') [] ''_'' \<and>
             (\<forall>init GOE castI.
                (\<forall>t l i. init (t\<lparr>lat' := l, info' := i\<rparr>) = (init t)\<lparr>lat' := l, info' := i\<rparr>) \<longrightarrow>
                hamiltonian init GOE castI B =
                  map_sum id (\<lambda>t. t\<lparr>lat' := None, info' := info' B\<rparr>)
                    (hamiltonian init GOE castI A) \<and>
                hamiltonian init GOE castI C =
                  map_sum id (\<lambda>t. t\<lparr>lat' := getLattice hil, info' := info' C\<rparr>)
                    (hamiltonian init GOE castI A) \<and>
                hamiltonian init GOE castI D = hamiltonian init GOE castI C \<and>
                map_sum id (\<lambda>t. (H' t, ran' t, Nh t)) (hamiltonian init GOE castI B) =
                  map_sum id (\<lambda>t. (H' t, ran' t, Nh t)) (hamiltonian init GOE castI A) \<and>
                map_sum id (\<lambda>t. (H' t, ran' t, Nh t)) (hamiltonian init GOE castI C) =
                  map_sum id (\<lambda>t. (H' t, ran' t, Nh t)) (hamiltonian init GOE castI A)))"
proof -
  let ?A = "SYK2_lat qinfo b lat c"
  let ?B = "SYK2_Ns qinfo b (get_Ns lat) c"
  let ?C = "SYK2_hil qinfo b hil c"
  let ?D = "SYK2_hil_move qinfo b hil c"
  have old: "type' ?A = SYK2_M \<and> type' ?B = SYK2_M \<and> type' ?C = SYK2_M \<and> ?D = ?C \<and>
             Ns' ?A = get_Ns lat \<and> Ns' ?B = get_Ns lat \<and> Ns' ?C = get_Ns lat \<and>
             Nh ?A = get_Ns lat \<and> Nh ?B = get_Ns lat \<and> Nh ?C = get_Ns lat \<and>
             (getLattice hil = Some lat \<longrightarrow> ?C = ?A) \<and>
             (getLattice hil = None \<longrightarrow> ?C = ?B) \<and>
             (get_BC lat = PBC \<longrightarrow>
                info' ?A = info' ?B \<and> ?B = ?A\<lparr>lat' := None\<rparr> \<and>
                (\<forall>skip sep prec. info qinfo ?A skip sep prec = info qinfo ?B skip sep prec))"
    using assms
    by (simp add: Let_def SYK2_lat_def SYK2_Ns_def SYK2_hil_def SYK2_hil_move_def
        QuadraticHamiltonian_lat_def QuadraticHamiltonian_Ns_def QuadraticHamiltonian_hil_def
        info_def)
  have B: "?B = ?A\<lparr>lat' := None, info' := info' ?B\<rparr>" by (rule SYK2_Ns_as_lat)
  have C: "?C = ?A\<lparr>lat' := getLattice hil, info' := info' ?C\<rparr>"
    using assms by (rule SYK2_hil_as_lat)
  have D: "?D = ?C" using old by blast
  have iA: "info' ?A =
      qinfo (''_SYK2,Ns='' @ STR_num (get_Ns lat) @ '',BC='' @
             getSTR_BoundaryConditions (get_BC lat)) [] ''_''"
    by (simp add: Let_def SYK2_lat_def QuadraticHamiltonian_lat_def info_def SSTR_def)
  have iB: "info' ?B = qinfo (''_SYK2,Ns='' @ STR_num (get_Ns lat) @ '',BC=PBC'') [] ''_''"
    by (simp add: Let_def SYK2_Ns_def QuadraticHamiltonian_Ns_def info_def SSTR_def)
  have ham: "hamiltonian init GOE castI ?B =
                  map_sum id (\<lambda>t. t\<lparr>lat' := None, info' := info' ?B\<rparr>)
                    (hamiltonian init GOE castI ?A) \<and>
             hamiltonian init GOE castI ?C =
                  map_sum id (\<lambda>t. t\<lparr>lat' := getLattice hil, info' := info' ?C\<rparr>)
                    (hamiltonian init GOE castI ?A) \<and>
             hamiltonian init GOE castI ?D = hamiltonian init GOE castI ?C \<and>
             map_sum id (\<lambda>t. (H' t, ran' t, Nh t)) (hamiltonian init GOE castI ?B) =
                  map_sum id (\<lambda>t. (H' t, ran' t, Nh t)) (hamiltonian init GOE castI ?A) \<and>
             map_sum id (\<lambda>t. (H' t, ran' t, Nh t)) (hamiltonian init GOE castI ?C) =
                  map_sum id (\<lambda>t. (H' t, ran' t, Nh t)) (hamiltonian init GOE castI ?A)"
    if i: "\<forall>t l i. init (t\<lparr>lat' := l, info' := i\<rparr>) = (init t)\<lparr>lat' := l, info' := i\<rparr>"
    for init :: "('a, 'rng) SYK2 \<Rightarrow> ('a, 'rng) SYK2" and GOE castI
  proof -
    from i have i': "\<And>t l i. init (t\<lparr>lat' := l, info' := i\<rparr>) = (init t)\<lparr>lat' := l, info' := i\<rparr>"
      by blast
    have hB: "hamiltonian init GOE castI ?B =
                  map_sum id (\<lambda>t. t\<lparr>lat' := None, info' := info' ?B\<rparr>)
                    (hamiltonian init GOE castI ?A)"
      by (subst B) (rule hamiltonian_ignores_lat_info [OF i'])
    have hC: "hamiltonian init GOE castI ?C =
                  map_sum id (\<lambda>t. t\<lparr>lat' := getLattice hil, info' := info' ?C\<rparr>)
                    (hamiltonian init GOE castI ?A)"
      by (subst C) (rule hamiltonian_ignores_lat_info [OF i'])
    have pB: "map_sum id (\<lambda>t. (H' t, ran' t, Nh t)) (hamiltonian init GOE castI ?B) =
                  map_sum id (\<lambda>t. (H' t, ran' t, Nh t)) (hamiltonian init GOE castI ?A)"
      unfolding hB by (cases "hamiltonian init GOE castI ?A") simp_all
    have pC: "map_sum id (\<lambda>t. (H' t, ran' t, Nh t)) (hamiltonian init GOE castI ?C) =
                  map_sum id (\<lambda>t. (H' t, ran' t, Nh t)) (hamiltonian init GOE castI ?A)"
      unfolding hC by (cases "hamiltonian init GOE castI ?A") simp_all
    have hD: "hamiltonian init GOE castI ?D = hamiltonian init GOE castI ?C"
      by (simp only: D)
    show ?thesis by (intro conjI hB hC hD pB pC)
  qed
  show ?thesis
    unfolding Let_def
    using old B C iA iB ham by blast
qed

theorem SYK2_constructors_equivalent_witness:
  "getLatticeSize \<lparr>getLattice = Some \<lparr>get_Ns = 4, get_BC = PBC\<rparr>, getLatticeSize = 4,
                   getHilbertSize = 4\<rparr> = get_Ns \<lparr>get_Ns = 4, get_BC = PBC\<rparr> \<and>
   getLatticeSize \<lparr>getLattice = None, getLatticeSize = 4, getHilbertSize = 4\<rparr>
     = get_Ns \<lparr>get_Ns = 4, get_BC = PBC\<rparr> \<and>
   get_BC \<lparr>get_Ns = 4, get_BC = PBC\<rparr> = PBC \<and>
   info' (SYK2_lat (QuadraticHamiltonian_info []) (example_model :: (real, nat) SYK2)
            \<lparr>get_Ns = 4, get_BC = PBC\<rparr> 0)
     = info' (SYK2_Ns (QuadraticHamiltonian_info []) (example_model :: (real, nat) SYK2) 4 0) \<and>
   SYK2_hil (QuadraticHamiltonian_info []) (example_model :: (real, nat) SYK2)
      \<lparr>getLattice = Some \<lparr>get_Ns = 4, get_BC = PBC\<rparr>, getLatticeSize = 4, getHilbertSize = 4\<rparr> 0
     = SYK2_lat (QuadraticHamiltonian_info []) example_model \<lparr>get_Ns = 4, get_BC = PBC\<rparr> 0 \<and>
   SYK2_hil (QuadraticHamiltonian_info []) (example_model :: (real, nat) SYK2)
      \<lparr>getLattice = None, getLatticeSize = 4, getHilbertSize = 4\<rparr> 0
     = SYK2_Ns (QuadraticHamiltonian_info []) example_model 4 0 \<and>
   getLatticeSize \<lparr>getLattice = None, getLatticeSize = 4, getHilbertSize = 4\<rparr>
     = get_Ns \<lparr>get_Ns = 4, get_BC = OBC\<rparr> \<and>
   info' (SYK2_lat (QuadraticHamiltonian_info []) (example_model :: (real, nat) SYK2)
            \<lparr>get_Ns = 4, get_BC = OBC\<rparr> 0) = ''_SYK2,Ns=4,BC=OBC'' \<and>
   map_sum id (\<lambda>t. (H' t, ran' t, Nh t))
      (hamiltonian (\<lambda>s. s) example_GOE 0
         (SYK2_Ns (QuadraticHamiltonian_info []) (example_model :: (real, nat) SYK2) 4 0)) =
   map_sum id (\<lambda>t. (H' t, ran' t, Nh t))
      (hamiltonian (\<lambda>s. s) example_GOE 0
         (SYK2_lat (QuadraticHamiltonian_info []) (example_model :: (real, nat) SYK2)
            \<lparr>get_Ns = 4, get_BC = OBC\<rparr> 0)) \<and>
   map_sum id (\<lambda>t. (H' t, ran' t, Nh t))
      (hamiltonian (\<lambda>s. s) example_GOE 0
         (SYK2_lat (QuadraticHamiltonian_info []) (example_model :: (real, nat) SYK2)
            \<lparr>get_Ns = 4, get_BC = OBC\<rparr> 0)) =
     Inr (\<lparr>n_rows = 4, n_cols = 4, mem = replicate 16 (3 / 2)\<rparr>, 4, 4)"
proof -
  let ?lat = "\<lparr>get_Ns = 4, get_BC = PBC\<rparr>"
  let ?obc = "\<lparr>get_Ns = 4, get_BC = OBC\<rparr>"
  let ?h1 = "\<lparr>getLattice = Some ?lat, getLatticeSize = 4, getHilbertSize = 4\<rparr>"
  let ?h2 = "\<lparr>getLattice = None, getLatticeSize = 4, getHilbertSize = 4\<rparr>"
  let ?b = "example_model :: (real, nat) SYK2"
  let ?q = "QuadraticHamiltonian_info []"
  let ?P = "\<lambda>t :: (real, nat) SYK2. (H' t, ran' t, Nh t)"
  let ?G = "example_GOE :: nat \<Rightarrow> nat \<Rightarrow> nat \<Rightarrow> real Mat \<times> nat"
  have s1: "getLatticeSize ?h1 = get_Ns ?lat" and s2: "getLatticeSize ?h2 = get_Ns ?lat"
    and s3: "getLatticeSize ?h2 = get_Ns ?obc"
    and l1: "getLattice ?h1 = Some ?lat" and l2: "getLattice ?h2 = None"
    and bc: "get_BC ?lat = PBC" and ns: "get_Ns ?lat = 4" and ns': "get_Ns ?obc = 4"
    by simp_all
  note t1 = SYK2_constructors_equivalent [OF s1, of ?q ?b 0, unfolded Let_def ns]
  note t2 = SYK2_constructors_equivalent [OF s2, of ?q ?b 0, unfolded Let_def ns]
  note t3 = SYK2_constructors_equivalent [OF s3, of ?q ?b 0, unfolded Let_def ns']
  from t1 l1 have c1: "SYK2_hil ?q ?b ?h1 0 = SYK2_lat ?q ?b ?lat 0" by blast
  from t2 l2 have c2: "SYK2_hil ?q ?b ?h2 0 = SYK2_Ns ?q ?b 4 0" by blast
  from t1 bc have i: "info' (SYK2_lat ?q ?b ?lat 0) = info' (SYK2_Ns ?q ?b 4 0)" by blast
  from t3 have "info' (SYK2_lat ?q ?b ?obc 0) =
      ?q (''_SYK2,Ns='' @ STR_num 4 @ '',BC='' @ getSTR_BoundaryConditions (get_BC ?obc)) [] ''_''"
    by blast
  then have io: "info' (SYK2_lat ?q ?b ?obc 0) = ''_SYK2,Ns=4,BC=OBC''"
    by (simp add: QuadraticHamiltonian_info_def STR_num_4)
  from t3 have all: "\<forall>init GOE castI.
      (\<forall>t l i. init (t\<lparr>lat' := l, info' := i\<rparr>) = (init t)\<lparr>lat' := l, info' := i\<rparr>) \<longrightarrow>
      map_sum id ?P (hamiltonian init GOE castI (SYK2_Ns ?q ?b 4 0)) =
      map_sum id ?P (hamiltonian init GOE castI (SYK2_lat ?q ?b ?obc 0))"
    by blast
  have "(\<forall>t l i. (\<lambda>s :: (real, nat) SYK2. s) (t\<lparr>lat' := l, info' := i\<rparr>)
          = ((\<lambda>s. s) t)\<lparr>lat' := l, info' := i\<rparr>) \<longrightarrow>
      map_sum id ?P (hamiltonian (\<lambda>s. s) ?G 0 (SYK2_Ns ?q ?b 4 0)) =
      map_sum id ?P (hamiltonian (\<lambda>s. s) ?G 0 (SYK2_lat ?q ?b ?obc 0))"
    using all [rule_format, of "\<lambda>s. s" ?G 0] by simp
  then have h: "map_sum id ?P (hamiltonian (\<lambda>s. s) ?G 0 (SYK2_Ns ?q ?b 4 0)) =
      map_sum id ?P (hamiltonian (\<lambda>s. s) ?G 0 (SYK2_lat ?q ?b ?obc 0))"
    by simp
  have v: "map_sum id ?P (hamiltonian (\<lambda>s. s) ?G 0 (SYK2_lat ?q ?b ?obc 0)) =
     Inr (\<lparr>n_rows = 4, n_cols = 4, mem = replicate 16 (3 / 2)\<rparr>, 4, 4)"
    by (simp add: hamiltonian_eq [OF example_GOE_shape] SYK2_lat_def
        QuadraticHamiltonian_lat_def Let_def example_model_def example_GOE_def mat_div_def)
  show ?thesis by (intro conjI s1 s2 bc i c1 c2 s3 io h v)
qed

end
